theory Spec2Isabelle
  imports Complex_Main "HOL-Library.Multiset"
begin

section \<open>JavaScript values used by the visualizer\<close>

text \<open>
  A JavaScript Number is an IEEE double. Every finite double is a real number, and the
  comparisons and the sign of a difference of two doubles are those of the reals they
  denote, so a finite number is modelled by its real value (\<open>+0\<close> and \<open>-0\<close> both by
  \<open>0\<close>: no operation of the program tells them apart). The three values that are not
  reals are kept apart. Of a difference of two numbers the program reads the sign only,
  which rounding keeps. The quotient \<open>m / 1.4\<close> and \<open>Math.pow\<close> are computed in
  doubles, rounded, and their finite results are not fixed here: they are parameters of
  the radius encoder.
\<close>

datatype jsnum = NaN | NegInf | Fin real | PosInf

text \<open>
  A field read from parsed JSON, or an array element read by index, can be missing
  (\<open>undefined\<close>), \<open>null\<close>, or hold a value.
\<close>

datatype 'a nullable = Undefined | Null | Val 'a

text \<open>\<open>v == null\<close> holds of \<open>null\<close> and of \<open>undefined\<close> only.\<close>

fun is_nullish :: "'a nullable \<Rightarrow> bool" where
  "is_nullish Undefined = True"
| "is_nullish Null = True"
| "is_nullish (Val x) = False"

text \<open>\<open>v ?? d\<close>: the right operand when the left one is \<open>null\<close> or \<open>undefined\<close>.\<close>

fun nullish :: "'a nullable \<Rightarrow> 'a \<Rightarrow> 'a" where
  "nullish Undefined d = d"
| "nullish Null d = d"
| "nullish (Val x) d = x"

text \<open>
  \<open>Number::lessThan\<close> of ECMAScript: \<open>None\<close> is its result \<open>undefined\<close>, given
  when an operand is NaN.
\<close>

fun js_lt :: "jsnum \<Rightarrow> jsnum \<Rightarrow> bool option" where
  "js_lt NaN y = None"
| "js_lt x NaN = None"
| "js_lt PosInf y = Some False"
| "js_lt x NegInf = Some False"
| "js_lt NegInf y = Some True"
| "js_lt x PosInf = Some True"
| "js_lt (Fin a) (Fin b) = Some (a < b)"

text \<open>
  The relational operators on numbers: \<open>x >= y\<close> is false when \<open>x < y\<close> is true or
  undefined, \<open>x <= y\<close> is false when \<open>y < x\<close> is true or undefined, and \<open>x > y\<close> is
  true when \<open>y < x\<close> is.
\<close>

definition js_ge :: "jsnum \<Rightarrow> jsnum \<Rightarrow> bool" where
  "js_ge x y = (js_lt x y = Some False)"

definition js_le :: "jsnum \<Rightarrow> jsnum \<Rightarrow> bool" where
  "js_le x y = (js_lt y x = Some False)"

definition js_gt :: "jsnum \<Rightarrow> jsnum \<Rightarrow> bool" where
  "js_gt x y = (js_lt y x = Some True)"

text \<open>
  \<open>x - y\<close> on numbers. A finite difference is the exact real; the difference of two
  doubles has the same sign.
\<close>

fun js_sub :: "jsnum \<Rightarrow> jsnum \<Rightarrow> jsnum" where
  "js_sub NaN y = NaN"
| "js_sub x NaN = NaN"
| "js_sub PosInf PosInf = NaN"
| "js_sub NegInf NegInf = NaN"
| "js_sub PosInf y = PosInf"
| "js_sub NegInf y = NegInf"
| "js_sub x PosInf = NegInf"
| "js_sub x NegInf = PosInf"
| "js_sub (Fin a) (Fin b) = Fin (a - b)"

text \<open>\<open>xs[i]\<close> on an array: \<open>undefined\<close> past the end.\<close>

definition js_index :: "'a nullable list \<Rightarrow> nat \<Rightarrow> 'a nullable" where
  "js_index xs i = (if i < length xs then xs ! i else Undefined)"

section \<open>The feed and its normalization\<close>

text \<open>
  The feed's shape, as the program reads it:
  \<open>{ features: [ { id, properties: { mag, place, time, url },
  geometry: { coordinates: [lon, lat, depth?] } }, ... ] }\<close>.
  Field names that the normalized record uses again carry a prefix here.
\<close>

record properties =
  mag :: "jsnum nullable"
  prop_place :: "string nullable"
  prop_time :: "jsnum nullable"
  prop_url :: "string nullable"

record geometry =
  coordinates :: "jsnum nullable list"

record feature =
  feature_id :: "string nullable"
  properties :: properties
  geometry :: geometry

text \<open>The parsed document; \<open>features\<close> is \<open>None\<close> when the field is missing or falsy.\<close>

record feed =
  features :: "feature list option"

text \<open>The record built by the fetch handler (\<open>id'\<close> is its field \<open>id\<close>).\<close>

record quake =
  id' :: "string nullable"
  magnitude :: "jsnum nullable"
  place :: "string nullable"
  time :: "jsnum nullable"
  url :: "string nullable"
  coords :: "jsnum nullable list"
  depth :: "jsnum nullable"

definition normalize_feature :: "feature \<Rightarrow> quake" where
  "normalize_feature f =
     \<lparr> id' = feature_id f,
       magnitude = mag (properties f),
       place = prop_place (properties f),
       time = prop_time (properties f),
       url = prop_url (properties f),
       coords = coordinates (geometry f),
       depth = js_index (coordinates (geometry f)) 2 \<rparr>"

text \<open>\<open>(json.features || []).map(...)\<close>\<close>

definition normalize :: "feed \<Rightarrow> quake list" where
  "normalize json =
     map normalize_feature (case features json of None \<Rightarrow> [] | Some fs \<Rightarrow> fs)"

text \<open>The marker code reads \<open>f.coords[0]\<close> as longitude and \<open>f.coords[1]\<close> as latitude.\<close>

definition lon :: "quake \<Rightarrow> jsnum nullable" where
  "lon f = js_index (coords f) 0"

definition lat :: "quake \<Rightarrow> jsnum nullable" where
  "lat f = js_index (coords f) 1"

section \<open>The filter\<close>

text \<open>\<open>data.filter((d) => (d.magnitude ?? 0) >= minMag)\<close>\<close>

definition filtered :: "quake list \<Rightarrow> jsnum \<Rightarrow> quake list" where
  "filtered data minMag =
     filter (\<lambda>d. js_ge (nullish (magnitude d) (Fin 0)) minMag) data"

section \<open>The visual encoders\<close>

text \<open>
  \<open>m / 1.4\<close>. NaN and the infinities pass through, the divisor being positive and
  finite. The quotient of a finite number is the real quotient rounded to a double, which
  is finite again; \<open>quot\<close> is that rounded quotient as a function of the dividend.
\<close>

fun js_div_1_4 :: "(real \<Rightarrow> real) \<Rightarrow> jsnum \<Rightarrow> jsnum" where
  "js_div_1_4 quot NaN = NaN"
| "js_div_1_4 quot NegInf = NegInf"
| "js_div_1_4 quot PosInf = PosInf"
| "js_div_1_4 quot (Fin a) = Fin (quot a)"

text \<open>
  \<open>Math.pow(2, y)\<close>: NaN for NaN, \<open>+Infinity\<close> for \<open>+Infinity\<close>, \<open>+0\<close> for
  \<open>-Infinity\<close>. For a finite exponent ECMAScript leaves the result to the engine, as
  an approximation of the real power: a finite number, or \<open>+Infinity\<close> when it
  overflows. \<open>pow\<close> is the engine's result as a function of the exponent, \<open>None\<close>
  standing for the overflow.
\<close>

fun js_pow2 :: "(real \<Rightarrow> real option) \<Rightarrow> jsnum \<Rightarrow> jsnum" where
  "js_pow2 pow NaN = NaN"
| "js_pow2 pow NegInf = Fin 0"
| "js_pow2 pow PosInf = PosInf"
| "js_pow2 pow (Fin y) = (case pow y of None \<Rightarrow> PosInf | Some r \<Rightarrow> Fin r)"

text \<open>\<open>Math.max(x, y)\<close>: NaN when an argument is NaN, the larger argument otherwise.\<close>

fun js_max :: "jsnum \<Rightarrow> jsnum \<Rightarrow> jsnum" where
  "js_max NaN y = NaN"
| "js_max x NaN = NaN"
| "js_max PosInf y = PosInf"
| "js_max x PosInf = PosInf"
| "js_max NegInf y = y"
| "js_max x NegInf = x"
| "js_max (Fin a) (Fin b) = Fin (max a b)"

text \<open>
  Both encoders start with \<open>if (m == null) return ...\<close>, which \<open>null\<close> and
  \<open>undefined\<close> take; the rest runs on a number.
\<close>

fun magToRadius :: "(real \<Rightarrow> real) \<Rightarrow> (real \<Rightarrow> real option) \<Rightarrow> jsnum nullable \<Rightarrow> jsnum" where
  "magToRadius quot pow Undefined = Fin 4"
| "magToRadius quot pow Null = Fin 4"
| "magToRadius quot pow (Val m) = js_max (Fin 4) (js_pow2 pow (js_div_1_4 quot m))"

fun magToColor :: "jsnum nullable \<Rightarrow> string" where
  "magToColor Undefined = ''#999''"
| "magToColor Null = ''#999''"
| "magToColor (Val m) =
     (if js_ge m (Fin 5) then ''#800026''
      else if js_ge m (Fin 4) then ''#BD0026''
      else if js_ge m (Fin 3) then ''#E31A1C''
      else if js_ge m (Fin 2) then ''#FC4E2A''
      else if js_ge m (Fin 1) then ''#FD8D3C''
      else ''#FED976'')"

section \<open>The list's ordering\<close>

text \<open>The comparator \<open>(a, b) => (b.magnitude ?? 0) - (a.magnitude ?? 0)\<close>.\<close>

definition by_magnitude_desc :: "quake \<Rightarrow> quake \<Rightarrow> jsnum" where
  "by_magnitude_desc a b =
     js_sub (nullish (magnitude b) (Fin 0)) (nullish (magnitude a) (Fin 0))"

text \<open>
  \<open>Array.prototype.sort\<close> is a built-in of the language. ECMAScript has it read the
  comparator's result as a number, with NaN read as \<open>+0\<close>, place \<open>a\<close> after \<open>b\<close>
  when the result is positive, and keep the order of items that compare as equal (the
  sort is stable). It is modelled by the stable insertion sort that does so:
  \<open>placed_after\<close> is the only use of the comparator.
\<close>

definition placed_after :: "('a \<Rightarrow> 'a \<Rightarrow> jsnum) \<Rightarrow> 'a \<Rightarrow> 'a \<Rightarrow> bool" where
  "placed_after cmp a b = js_gt (cmp a b) (Fin 0)"

fun js_insert :: "('a \<Rightarrow> 'a \<Rightarrow> jsnum) \<Rightarrow> 'a \<Rightarrow> 'a list \<Rightarrow> 'a list" where
  "js_insert cmp x [] = [x]"
| "js_insert cmp x (y # ys) =
     (if placed_after cmp x y then y # js_insert cmp x ys else x # y # ys)"

fun js_sort :: "('a \<Rightarrow> 'a \<Rightarrow> jsnum) \<Rightarrow> 'a list \<Rightarrow> 'a list" where
  "js_sort cmp [] = []"
| "js_sort cmp (x # xs) = js_insert cmp x (js_sort cmp xs)"

text \<open>\<open>filtered.slice().sort(...)\<close>: a sorted copy; \<open>filtered\<close> itself is not changed.\<close>

definition list_order :: "quake list \<Rightarrow> quake list" where
  "list_order fs = js_sort by_magnitude_desc fs"

text \<open>
  For the proofs: the number a record is compared as, \<open>magnitude ?? 0\<close>, and the
  order the list is meant to have, \<open>(a.magnitude ?? 0) >= (b.magnitude ?? 0)\<close>.
\<close>

definition compared_as :: "quake \<Rightarrow> jsnum" where
  "compared_as q = nullish (magnitude q) (Fin 0)"

definition shown_before :: "quake \<Rightarrow> quake \<Rightarrow> bool" where
  "shown_before a b = js_ge (compared_as a) (compared_as b)"

section \<open>Map framing\<close>

text \<open>
  The map widget is Leaflet's. Of it the model keeps the view it shows and the
  \<open>fitBounds\<close> requests it has received; \<open>fitBounds\<close> records the request and moves
  the view to the requested bounds.
\<close>

type_synonym latlng = "jsnum nullable \<times> jsnum nullable"

datatype map_view = CenterZoom real real nat | FittedTo "latlng list" "nat \<times> nat"

record leaflet_map =
  view :: map_view
  fit_requests :: "(latlng list \<times> (nat \<times> nat)) list"

definition fitBounds :: "latlng list \<Rightarrow> nat \<times> nat \<Rightarrow> leaflet_map \<Rightarrow> leaflet_map" where
  "fitBounds bounds padding m =
     m\<lparr> view := FittedTo bounds padding,
        fit_requests := fit_requests m @ [(bounds, padding)] \<rparr>"

text \<open>
  The effect of the component \<open>FitBounds\<close>. Its argument is \<open>None\<close> when
  \<open>features\<close> is falsy. Each feature is \<open>{ geometry: { coordinates: [lon, lat] } }\<close>
  (\<open>fit_geometry\<close> is its field \<open>geometry\<close>);
  the pairs \<open>[lat, lon]\<close> are arrays, which are truthy, so \<open>filter(Boolean)\<close>
  keeps them all.
\<close>

record fit_feature =
  fit_geometry :: geometry

definition FitBounds :: "fit_feature list option \<Rightarrow> leaflet_map \<Rightarrow> leaflet_map" where
  "FitBounds fs m =
     (case fs of
        None \<Rightarrow> m
      | Some fts \<Rightarrow>
          if length fts = 0 then m
          else
            let bounds =
                  filter (\<lambda>b. True)
                    (map (\<lambda>f. (js_index (coordinates (fit_geometry f)) 1,
                                js_index (coordinates (fit_geometry f)) 0))
                       fts)
            in if length bounds \<noteq> 0 then fitBounds bounds (50, 50) m else m)"

text \<open>
  What the visualizer passes to it:
  \<open>filtered.map((f) => ({ geometry: { coordinates: [f.coords[0], f.coords[1]] } }))\<close>.
\<close>

definition fit_features :: "quake list \<Rightarrow> fit_feature list" where
  "fit_features fs =
     map (\<lambda>f. \<lparr> fit_geometry =
                 \<lparr> coordinates = [js_index (coords f) 0, js_index (coords f) 1] \<rparr> \<rparr>) fs"

definition frame_map :: "quake list \<Rightarrow> leaflet_map \<Rightarrow> leaflet_map" where
  "frame_map fs m = FitBounds (Some (fit_features fs)) m"

section \<open>Fetching\<close>

text \<open>
  The component's state (\<open>useState\<close>) and the flag \<open>mounted\<close> that the effect's
  closure holds.
\<close>

record session =
  data :: "quake list"
  loading :: bool
  error :: "string option"
  minMag :: jsnum
  mounted :: bool

text \<open>The state before the effect runs: the initial values given to \<open>useState\<close>.\<close>

definition initial :: session where
  "initial = \<lparr> data = [], loading = True, error = None, minMag = Fin 0, mounted = False \<rparr>"

text \<open>
  What the fetch can come to. A rejection carries a value whose \<open>message\<close> may be
  missing. A response has its \<open>ok\<close> flag and a body that parses to a document or
  makes \<open>r.json()\<close> reject.
\<close>

datatype js_error = Error (message: "string option")

datatype body = Unparsable js_error | Json feed

datatype fetch_outcome = Rejected js_error | Response bool body

text \<open>The effect's first statements: \<open>let mounted = true; setLoading(true)\<close>.\<close>

definition start_fetch :: "session \<Rightarrow> session" where
  "start_fetch s = s\<lparr> mounted := True, loading := True \<rparr>"

text \<open>The effect's cleanup, run when the component is torn down: \<open>mounted = false\<close>.\<close>

definition cleanup :: "session \<Rightarrow> session" where
  "cleanup s = s\<lparr> mounted := False \<rparr>"

text \<open>The second \<open>then\<close> handler.\<close>

definition on_json :: "feed \<Rightarrow> session \<Rightarrow> session" where
  "on_json json s =
     (if \<not> mounted s then s
      else s\<lparr> data := normalize json, loading := False \<rparr>)"

text \<open>\<open>err.message || "Failed to load"\<close>: a missing or empty message is falsy.\<close>

definition message_or_default :: "js_error \<Rightarrow> string" where
  "message_or_default err =
     (case message err of
        None \<Rightarrow> ''Failed to load''
      | Some msg \<Rightarrow> if msg = [] then ''Failed to load'' else msg)"

text \<open>The \<open>catch\<close> handler.\<close>

definition on_error :: "js_error \<Rightarrow> session \<Rightarrow> session" where
  "on_error err s =
     (if \<not> mounted s then s
      else s\<lparr> error := Some (message_or_default err), loading := False \<rparr>)"

text \<open>
  The promise chain, run when the fetch settles: a rejection goes to \<open>catch\<close>; a
  response that is not \<open>ok\<close> throws in the first \<open>then\<close>, which goes to \<open>catch\<close>;
  a body that does not parse rejects, which goes to \<open>catch\<close>; a parsed document goes
  to the second \<open>then\<close>.
\<close>

definition settle :: "fetch_outcome \<Rightarrow> session \<Rightarrow> session" where
  "settle outcome s =
     (case outcome of
        Rejected err \<Rightarrow> on_error err s
      | Response ok b \<Rightarrow>
          if \<not> ok then on_error (Error (Some ''Network response was not ok'')) s
          else (case b of
                  Unparsable err \<Rightarrow> on_error err s
                | Json json \<Rightarrow> on_json json s))"

text \<open>
  What the main pane shows, in the order the component tests it: the error (a string
  is truthy unless empty), the loading notice, the no-match notice, or the map with the
  filtered records.
\<close>

datatype pane = ErrorPane string | LoadingPane | NoMatchPane | MapPane "quake list"

definition main_pane :: "session \<Rightarrow> pane" where
  "main_pane s =
     (case error s of
        Some msg \<Rightarrow>
          if msg \<noteq> [] then ErrorPane msg
          else if loading s then LoadingPane
          else if length (filtered (data s) (minMag s)) = 0 then NoMatchPane
          else MapPane (filtered (data s) (minMag s))
      | None \<Rightarrow>
          if loading s then LoadingPane
          else if length (filtered (data s) (minMag s)) = 0 then NoMatchPane
          else MapPane (filtered (data s) (minMag s)))"

section \<open>A sample feed\<close>

text \<open>
  The scenario of three features with magnitudes \<open>5.2\<close>, \<open>1.0\<close> and \<open>null\<close>; the
  third has no depth.
\<close>

definition sample_feature :: "string \<Rightarrow> jsnum nullable \<Rightarrow> jsnum nullable list \<Rightarrow> feature" where
  "sample_feature i m cs =
     \<lparr> feature_id = Val i,
       properties = \<lparr> mag = m, prop_place = Val ''10 km N of X'',
                      prop_time = Val (Fin 1700000000000), prop_url = Val (''https://x/'' @ i) \<rparr>,
       geometry = \<lparr> coordinates = cs \<rparr> \<rparr>"

definition sample_feed :: feed where
  "sample_feed =
     \<lparr> features = Some
         [ sample_feature ''a'' (Val (Fin 5.2)) [Val (Fin 10), Val (Fin 20), Val (Fin 7)],
           sample_feature ''b'' (Val (Fin 1)) [Val (Fin (-30)), Val (Fin 40), Val (Fin 2)],
           sample_feature ''c'' Null [Val (Fin 50), Val (Fin (-60))] ] \<rparr>"

definition sample_quake :: "string \<Rightarrow> jsnum nullable \<Rightarrow> quake" where
  "sample_quake i m = normalize_feature (sample_feature i m [Val (Fin 0), Val (Fin 0)])"

text \<open>The map as \<open>MapContainer\<close> creates it: \<open>center={[20, 0]} zoom={2}\<close>.\<close>

definition fresh_map :: leaflet_map where
  "fresh_map = \<lparr> view = CenterZoom 20 0 2, fit_requests = [] \<rparr>"

section \<open>Facts about the comparisons\<close>

lemma js_ge_Fin [simp]: "js_ge (Fin a) (Fin b) = (b \<le> a)"
  by (auto simp: js_ge_def)

lemma js_le_Fin [simp]: "js_le (Fin a) (Fin b) = (a \<le> b)"
  by (auto simp: js_le_def)

lemma js_gt_Fin [simp]: "js_gt (Fin a) (Fin b) = (b < a)"
  by (simp add: js_gt_def)

lemma js_ge_NaN_left [simp]: "js_ge NaN t = False"
  by (simp add: js_ge_def)

lemma js_ge_NaN_right [simp]: "js_ge x NaN = False"
  by (cases x) (simp_all add: js_ge_def)

lemma js_ge_trans: "js_ge x y \<Longrightarrow> js_ge y z \<Longrightarrow> js_ge x z"
  by (cases x; cases y; cases z) (simp_all add: js_ge_def)

lemma js_le_iff_ge: "js_le x y = js_ge y x"
  by (simp add: js_le_def js_ge_def)

lemma js_gt_not_ge: "js_gt t (Fin 0) \<Longrightarrow> \<not> js_ge (Fin 0) t"
  by (cases t) (simp_all add: js_gt_def js_ge_def)

lemma nullish_is_nullish: "is_nullish v \<Longrightarrow> nullish v d = d"
  by (cases v) simp_all

section \<open>Properties of the filter\<close>

text \<open>
  C1. For every normalized set and every threshold, the filtered view is the records of
  the set, in input order, at exactly the positions whose record satisfies
  \<open>(magnitude ?? 0) >= t\<close>. A record \<open>n\<close> whose magnitude is null or missing is
  compared as \<open>0\<close>: it is kept exactly when \<open>0 >= t\<close>, so it is excluded whenever
  \<open>t > 0\<close>; a record \<open>f\<close> with a finite magnitude \<open>m\<close> is kept at a finite threshold
  \<open>r\<close> exactly when \<open>r \<le> m\<close>.
\<close>

theorem filtered_is_threshold_subset:
  "filtered qs t =
     nths qs {i. i < length qs \<and> js_ge (nullish (magnitude (qs ! i)) (Fin 0)) t}
   \<and> (q \<in> set (filtered qs t)
        \<longleftrightarrow> q \<in> set qs \<and> js_ge (nullish (magnitude q) (Fin 0)) t)
   \<and> (is_nullish (magnitude n)
        \<longrightarrow> (n \<in> set (filtered qs t) \<longleftrightarrow> n \<in> set qs \<and> js_ge (Fin 0) t))
   \<and> (is_nullish (magnitude n) \<and> js_gt t (Fin 0) \<longrightarrow> n \<notin> set (filtered qs t))
   \<and> (magnitude f = Val (Fin m)
        \<longrightarrow> (f \<in> set (filtered qs (Fin r)) \<longleftrightarrow> f \<in> set qs \<and> r \<le> m))"
proof -
  have "filtered qs t =
     nths qs {i. i < length qs \<and> js_ge (nullish (magnitude (qs ! i)) (Fin 0)) t}"
    unfolding filtered_def by (rule filter_eq_nths)
  moreover have "q \<in> set (filtered qs t)
        \<longleftrightarrow> q \<in> set qs \<and> js_ge (nullish (magnitude q) (Fin 0)) t"
    by (simp add: filtered_def)
  moreover have "is_nullish (magnitude n)
        \<longrightarrow> (n \<in> set (filtered qs t) \<longleftrightarrow> n \<in> set qs \<and> js_ge (Fin 0) t)"
    by (simp add: filtered_def nullish_is_nullish)
  moreover have "is_nullish (magnitude n) \<and> js_gt t (Fin 0) \<longrightarrow> n \<notin> set (filtered qs t)"
    by (auto simp: filtered_def nullish_is_nullish dest: js_gt_not_ge)
  moreover have "magnitude f = Val (Fin m)
        \<longrightarrow> (f \<in> set (filtered qs (Fin r)) \<longleftrightarrow> f \<in> set qs \<and> r \<le> m)"
    by (simp add: filtered_def)
  ultimately show ?thesis by blast
qed

text \<open>
  On the sample feed at threshold \<open>2\<close>: the null-magnitude record \<open>c\<close> and the
  magnitude-\<open>1\<close> record \<open>b\<close> are hidden, only the \<open>5.2\<close> record is shown.
\<close>

theorem filtered_is_threshold_subset_witness:
  "is_nullish (magnitude (normalize sample_feed ! 2))
   \<and> js_gt (Fin 2) (Fin 0)
   \<and> magnitude (normalize sample_feed ! 0) = Val (Fin 5.2)
   \<and> normalize sample_feed ! 2 \<notin> set (filtered (normalize sample_feed) (Fin 2))
   \<and> normalize sample_feed ! 0 \<in> set (filtered (normalize sample_feed) (Fin 2))
   \<and> filtered (normalize sample_feed) (Fin 2) = [normalize sample_feed ! 0]"
  using filtered_is_threshold_subset
    [of "normalize sample_feed" "Fin 2" "normalize sample_feed ! 1"
        "normalize sample_feed ! 2" "normalize sample_feed ! 0" "5.2" 2,
      THEN conjunct2]
  by (simp add: filtered_def normalize_def sample_feed_def sample_feature_def
        normalize_feature_def js_index_def)

text \<open>
  C2. For a fixed normalized set and thresholds \<open>t1 <= t2\<close>, the filtered view at
  \<open>t2\<close> is no longer than the one at \<open>t1\<close>: raising the threshold never shows more
  records.
\<close>

theorem filtered_length_antimono:
  assumes "js_le t1 t2"
  shows "length (filtered qs t2) \<le> length (filtered qs t1)"
proof -
  have keep: "js_ge x t1" if "js_ge x t2" for x
    using that assms js_ge_trans [of x t2 t1] by (simp add: js_le_iff_ge)
  show ?thesis
  proof (induction qs)
    case Nil
    show ?case by (simp add: filtered_def)
  next
    case (Cons q qs)
    then show ?case
      using keep [of "nullish (magnitude q) (Fin 0)"] by (auto simp: filtered_def)
  qed
qed

theorem filtered_length_antimono_witness:
  "js_le (Fin 0) (Fin 2)
   \<and> length (filtered (normalize sample_feed) (Fin 2))
       \<le> length (filtered (normalize sample_feed) (Fin 0))
   \<and> length (filtered (normalize sample_feed) (Fin 0)) = 3"
proof -
  have h: "js_le (Fin 0) (Fin 2)" by simp
  have "length (filtered (normalize sample_feed) (Fin 0)) = 3"
    by (simp add: filtered_def normalize_def sample_feed_def sample_feature_def
          normalize_feature_def)
  with h filtered_length_antimono [OF h, of "normalize sample_feed"] show ?thesis
    by simp
qed

text \<open>
  C10. A record whose magnitude is NaN is excluded by the filter at every threshold,
  threshold \<open>0\<close> included, since \<open>NaN ?? 0\<close> is NaN and \<open>NaN >= t\<close> is false; a
  record of the set whose magnitude is null (or missing) is shown at threshold \<open>0\<close>.
\<close>

theorem filtered_excludes_NaN:
  "(magnitude q = Val NaN \<longrightarrow> q \<notin> set (filtered qs t))
   \<and> (magnitude q = Val NaN \<longrightarrow> q \<notin> set (filtered qs (Fin 0)))
   \<and> (is_nullish (magnitude n) \<and> n \<in> set qs \<longrightarrow> n \<in> set (filtered qs (Fin 0)))"
  by (auto simp: filtered_def nullish_is_nullish)

theorem filtered_excludes_NaN_witness:
  "magnitude (sample_quake ''n'' (Val NaN)) = Val NaN
   \<and> sample_quake ''n'' (Val NaN)
       \<notin> set (filtered [sample_quake ''n'' (Val NaN), sample_quake ''z'' Null] (Fin 0))
   \<and> is_nullish (magnitude (sample_quake ''z'' Null))
   \<and> sample_quake ''z'' Null \<in> set [sample_quake ''n'' (Val NaN), sample_quake ''z'' Null]
   \<and> sample_quake ''z'' Null
       \<in> set (filtered [sample_quake ''n'' (Val NaN), sample_quake ''z'' Null] (Fin 0))"
  using filtered_excludes_NaN
    [of "sample_quake ''n'' (Val NaN)"
        "[sample_quake ''n'' (Val NaN), sample_quake ''z'' Null]" "Fin 0"
        "sample_quake ''z'' Null"]
  by (simp add: sample_quake_def sample_feature_def normalize_feature_def)

section \<open>Properties of normalization\<close>

text \<open>
  C3. For every feed document, normalization gives an array as long as the feature
  array (empty when the document has none), and its \<open>i\<close>-th record holds the
  \<open>i\<close>-th feature's id, magnitude, place, time and url as they are; its longitude
  and latitude are the first and second element of the feature's coordinate tuple and
  its depth the third, which is \<open>undefined\<close> when the tuple has fewer than three
  elements.
\<close>

theorem normalize_preserves_features:
  "length (normalize json) = (case features json of None \<Rightarrow> 0 | Some fs \<Rightarrow> length fs)
   \<and> (\<forall>fs i. features json = Some fs \<and> i < length fs \<longrightarrow>
         id' (normalize json ! i) = feature_id (fs ! i)
         \<and> magnitude (normalize json ! i) = mag (properties (fs ! i))
         \<and> place (normalize json ! i) = prop_place (properties (fs ! i))
         \<and> time (normalize json ! i) = prop_time (properties (fs ! i))
         \<and> url (normalize json ! i) = prop_url (properties (fs ! i))
         \<and> lon (normalize json ! i) = js_index (coordinates (geometry (fs ! i))) 0
         \<and> lat (normalize json ! i) = js_index (coordinates (geometry (fs ! i))) 1
         \<and> depth (normalize json ! i) = js_index (coordinates (geometry (fs ! i))) 2
         \<and> (length (coordinates (geometry (fs ! i))) \<le> 2
              \<longrightarrow> depth (normalize json ! i) = Undefined)
         \<and> (2 < length (coordinates (geometry (fs ! i)))
              \<longrightarrow> lon (normalize json ! i) = coordinates (geometry (fs ! i)) ! 0
                \<and> lat (normalize json ! i) = coordinates (geometry (fs ! i)) ! 1
                \<and> depth (normalize json ! i) = coordinates (geometry (fs ! i)) ! 2))"
  by (auto simp: normalize_def normalize_feature_def lon_def lat_def js_index_def
        split: option.splits)

text \<open>
  On the sample feed: three records in the feed's order; the third feature has a
  two-element tuple, so its depth is \<open>undefined\<close>, and its null magnitude is kept.
\<close>

theorem normalize_preserves_features_witness:
  "features sample_feed \<noteq> None
   \<and> length (normalize sample_feed) = 3
   \<and> map id' (normalize sample_feed) = [Val ''a'', Val ''b'', Val ''c'']
   \<and> magnitude (normalize sample_feed ! 2) = Null
   \<and> lon (normalize sample_feed ! 2) = Val (Fin 50)
   \<and> lat (normalize sample_feed ! 2) = Val (Fin (-60))
   \<and> depth (normalize sample_feed ! 2) = Undefined
   \<and> depth (normalize sample_feed ! 0) = Val (Fin 7)"
  using normalize_preserves_features [of sample_feed]
  by (simp add: sample_feed_def sample_feature_def normalize_def normalize_feature_def
        lon_def lat_def js_index_def)

section \<open>Properties of the radius encoder\<close>

lemma js_ge_max4: "y \<noteq> NaN \<Longrightarrow> js_ge (js_max (Fin 4) y) (Fin 4)"
  by (cases y) (simp_all add: js_ge_def)

lemma js_pow2_div_NaN: "js_pow2 pow (js_div_1_4 quot x) = NaN \<longleftrightarrow> x = NaN"
  by (cases x) (simp_all split: option.splits)

lemma magToRadius_Val_ge4: "x \<noteq> NaN \<Longrightarrow> js_ge (magToRadius quot pow (Val x)) (Fin 4)"
  by (simp add: js_ge_max4 js_pow2_div_NaN)

lemma filtered_magnitude_not_NaN: "q \<in> set (filtered qs t) \<Longrightarrow> magnitude q \<noteq> Val NaN"
  by (auto simp: filtered_def)

text \<open>
  Whatever finite values the engine's division and \<open>Math.pow\<close> return: the radius
  of a null (or missing) magnitude is \<open>4\<close>; the radius of every magnitude other than
  the number NaN is \<open>>= 4\<close>; and so is the radius of every record of a filtered set,
  which are the records the markers are drawn for.
\<close>

theorem magToRadius_at_least_4:
  "magToRadius quot pow Null = Fin 4
   \<and> magToRadius quot pow Undefined = Fin 4
   \<and> (m \<noteq> Val NaN \<longrightarrow> js_ge (magToRadius quot pow m) (Fin 4))
   \<and> (q \<in> set (filtered qs t) \<longrightarrow> js_ge (magToRadius quot pow (magnitude q)) (Fin 4))"
proof -
  have ge4: "js_ge (magToRadius quot pow v) (Fin 4)" if "v \<noteq> Val NaN" for v
  proof (cases v)
    case (Val x)
    with that show ?thesis using magToRadius_Val_ge4 [of x quot pow] by auto
  qed simp_all
  have drawn: "js_ge (magToRadius quot pow (magnitude q)) (Fin 4)"
    if "q \<in> set (filtered qs t)"
    using that by (intro ge4 filtered_magnitude_not_NaN)
  from ge4 drawn show ?thesis by simp
qed

text \<open>
  With an engine whose quotient and power are the exact ones, on the sample feed at
  threshold \<open>2\<close>: the magnitude \<open>7\<close> gets radius \<open>32\<close>, and the one record shown,
  of magnitude \<open>5.2\<close>, a radius \<open>>= 4\<close>.
\<close>

theorem magToRadius_at_least_4_witness:
  "Val (Fin 7) \<noteq> Val NaN
   \<and> magToRadius (\<lambda>a. a / 1.4) (\<lambda>y. Some (2 powr y)) (Val (Fin 7)) = Fin 32
   \<and> js_ge (magToRadius (\<lambda>a. a / 1.4) (\<lambda>y. Some (2 powr y)) (Val (Fin 7))) (Fin 4)
   \<and> normalize sample_feed ! 0 \<in> set (filtered (normalize sample_feed) (Fin 2))
   \<and> js_ge (magToRadius (\<lambda>a. a / 1.4) (\<lambda>y. Some (2 powr y))
              (magnitude (normalize sample_feed ! 0))) (Fin 4)"
proof -
  have shown: "normalize sample_feed ! 0 \<in> set (filtered (normalize sample_feed) (Fin 2))"
    by (simp add: filtered_def normalize_def sample_feed_def sample_feature_def
          normalize_feature_def)
  have at7: "magToRadius (\<lambda>a. a / 1.4) (\<lambda>y. Some (2 powr y)) (Val (Fin 7)) = Fin 32"
    by simp
  have number: "Val (Fin 7) \<noteq> (Val NaN :: jsnum nullable)" by simp
  note fact = magToRadius_at_least_4
    [of "\<lambda>a. a / 1.4" "\<lambda>y. Some (2 powr y)" "Val (Fin 7)" "normalize sample_feed ! 0"
        "normalize sample_feed" "Fin 2"]
  from fact number
  have a: "js_ge (magToRadius (\<lambda>a. a / 1.4) (\<lambda>y. Some (2 powr y)) (Val (Fin 7))) (Fin 4)"
    by blast
  from fact shown
  have b: "js_ge (magToRadius (\<lambda>a. a / 1.4) (\<lambda>y. Some (2 powr y))
              (magnitude (normalize sample_feed ! 0))) (Fin 4)"
    by blast
  from number at7 a shown b show ?thesis by blast
qed

section \<open>Properties of the color encoder\<close>

text \<open>
  C5. The color encoder gives the gray token for a null magnitude. On a number it tests
  \<open>>= 5\<close>, \<open>>= 4\<close>, \<open>>= 3\<close>, \<open>>= 2\<close>, \<open>>= 1\<close> in this order and the first test that
  holds decides. So it is defined on the whole real line, which it cuts into six
  contiguous buckets with inclusive lower bounds, \<open>[5, \<infinity>)\<close>, \<open>[4, 5)\<close>, \<open>[3, 4)\<close>,
  \<open>[2, 3)\<close>, \<open>[1, 2)\<close> and \<open>(-\<infinity>, 1)\<close>, each with one fixed token of its own.
\<close>

theorem magToColor_buckets:
  "magToColor Null = ''#999''
   \<and> magToColor (Val (Fin x)) =
       (if 5 \<le> x then ''#800026''
        else if 4 \<le> x then ''#BD0026''
        else if 3 \<le> x then ''#E31A1C''
        else if 2 \<le> x then ''#FC4E2A''
        else if 1 \<le> x then ''#FD8D3C''
        else ''#FED976'')
   \<and> (magToColor (Val (Fin x)) = ''#800026'' \<longleftrightarrow> 5 \<le> x)
   \<and> (magToColor (Val (Fin x)) = ''#BD0026'' \<longleftrightarrow> 4 \<le> x \<and> x < 5)
   \<and> (magToColor (Val (Fin x)) = ''#E31A1C'' \<longleftrightarrow> 3 \<le> x \<and> x < 4)
   \<and> (magToColor (Val (Fin x)) = ''#FC4E2A'' \<longleftrightarrow> 2 \<le> x \<and> x < 3)
   \<and> (magToColor (Val (Fin x)) = ''#FD8D3C'' \<longleftrightarrow> 1 \<le> x \<and> x < 2)
   \<and> (magToColor (Val (Fin x)) = ''#FED976'' \<longleftrightarrow> x < 1)
   \<and> magToColor (Val (Fin x)) \<noteq> ''#999''
   \<and> card (range (\<lambda>x. magToColor (Val (Fin x)))) = 6"
proof -
  have range_eq: "range (\<lambda>x. magToColor (Val (Fin x))) =
      {''#800026'', ''#BD0026'', ''#E31A1C'', ''#FC4E2A'', ''#FD8D3C'', ''#FED976''}"
    (is "?R = ?T")
  proof
    show "?R \<subseteq> ?T" by auto
    have "magToColor (Val (Fin 5)) \<in> ?R" "magToColor (Val (Fin 4)) \<in> ?R"
      "magToColor (Val (Fin 3)) \<in> ?R" "magToColor (Val (Fin 2)) \<in> ?R"
      "magToColor (Val (Fin 1)) \<in> ?R" "magToColor (Val (Fin 0)) \<in> ?R"
      by (rule rangeI)+
    then show "?T \<subseteq> ?R" by simp
  qed
  have "card (range (\<lambda>x. magToColor (Val (Fin x)))) = 6"
    unfolding range_eq by simp
  then show ?thesis by auto
qed

section \<open>Properties of the list's ordering\<close>

lemma mset_js_insert: "mset (js_insert cmp x ys) = add_mset x (mset ys)"
  by (induction ys) simp_all

lemma mset_js_sort: "mset (js_sort cmp xs) = mset xs"
  by (induction xs) (simp_all add: mset_js_insert)

lemma set_js_insert: "set (js_insert cmp x ys) = insert x (set ys)"
  using mset_js_insert [of cmp x ys, THEN arg_cong, of set_mset] by simp

text \<open>On numbers other than NaN the comparator's sign decides \<open>>=\<close>, which is total.\<close>

lemma js_sub_positive:
  "u \<noteq> NaN \<Longrightarrow> v \<noteq> NaN \<Longrightarrow> js_gt (js_sub v u) (Fin 0) \<longleftrightarrow> \<not> js_ge u v"
  by (cases u; cases v) (auto simp: js_gt_def js_ge_def)

lemma js_ge_total: "u \<noteq> NaN \<Longrightarrow> v \<noteq> NaN \<Longrightarrow> \<not> js_ge u v \<Longrightarrow> js_ge v u"
  by (cases u; cases v) (auto simp: js_ge_def)

lemma placed_after_by_magnitude:
  assumes "compared_as a \<noteq> NaN" and "compared_as b \<noteq> NaN"
  shows "placed_after by_magnitude_desc a b \<longleftrightarrow> \<not> shown_before a b"
  using js_sub_positive [OF assms]
  by (simp add: placed_after_def by_magnitude_desc_def shown_before_def compared_as_def)

lemma sorted_js_insert:
  assumes "sorted_wrt shown_before ys"
    and "compared_as x \<noteq> NaN"
    and "\<forall>y \<in> set ys. compared_as y \<noteq> NaN"
  shows "sorted_wrt shown_before (js_insert by_magnitude_desc x ys)"
  using assms
proof (induction ys)
  case Nil
  show ?case by simp
next
  case (Cons y ys)
  show ?case
  proof (cases "placed_after by_magnitude_desc x y")
    case True
    with Cons.prems have "\<not> shown_before x y"
      by (simp add: placed_after_by_magnitude)
    with Cons.prems have yx: "shown_before y x"
      by (simp add: shown_before_def js_ge_total)
    from Cons have "sorted_wrt shown_before (js_insert by_magnitude_desc x ys)"
      by simp
    with True yx Cons.prems show ?thesis
      by (simp add: set_js_insert)
  next
    case False
    with Cons.prems have xy: "shown_before x y"
      by (simp add: placed_after_by_magnitude)
    have "shown_before x z" if "z \<in> set ys" for z
    proof -
      from that Cons.prems have "shown_before y z" by simp
      with xy show ?thesis unfolding shown_before_def by (rule js_ge_trans)
    qed
    with False xy Cons.prems show ?thesis by simp
  qed
qed

lemma sorted_js_sort:
  "\<forall>x \<in> set xs. compared_as x \<noteq> NaN \<Longrightarrow> sorted_wrt shown_before (js_sort by_magnitude_desc xs)"
proof (induction xs)
  case Nil
  show ?case by simp
next
  case (Cons x xs)
  have "set (js_sort by_magnitude_desc xs) = set xs"
    using mset_js_sort [of by_magnitude_desc xs, THEN arg_cong, of set_mset] by simp
  with Cons show ?case by (simp add: sorted_js_insert)
qed

lemma filtered_compared_as: "q \<in> set (filtered qs t) \<Longrightarrow> compared_as q \<noteq> NaN"
  by (auto simp: filtered_def compared_as_def)

text \<open>
  C6. For every filtered set, the list is ordered by magnitude descending with null
  compared as \<open>0\<close>: every adjacent pair \<open>(a, b)\<close> of the sorted output has
  \<open>(a.magnitude ?? 0) >= (b.magnitude ?? 0)\<close>. The output holds the records of the
  filtered set themselves, each as often as the filtered set does, so every record
  shows the magnitude it was normalized with (a null one stays null).
\<close>

theorem list_order_descending:
  "(\<forall>i. Suc i < length (list_order (filtered qs t)) \<longrightarrow>
      js_ge (nullish (magnitude (list_order (filtered qs t) ! i)) (Fin 0))
            (nullish (magnitude (list_order (filtered qs t) ! Suc i)) (Fin 0)))
   \<and> mset (list_order (filtered qs t)) = mset (filtered qs t)
   \<and> mset (map magnitude (list_order (filtered qs t))) = mset (map magnitude (filtered qs t))"
proof -
  let ?out = "list_order (filtered qs t)"
  have "sorted_wrt shown_before ?out"
    unfolding list_order_def by (rule sorted_js_sort) (simp add: filtered_compared_as)
  then have "shown_before (?out ! i) (?out ! Suc i)" if "Suc i < length ?out" for i
    using that by (simp add: sorted_wrt_iff_nth_less)
  then have adjacent: "\<forall>i. Suc i < length ?out \<longrightarrow>
      js_ge (nullish (magnitude (?out ! i)) (Fin 0)) (nullish (magnitude (?out ! Suc i)) (Fin 0))"
    by (simp add: shown_before_def compared_as_def)
  have same: "mset ?out = mset (filtered qs t)"
    by (simp add: list_order_def mset_js_sort)
  have "mset (map magnitude ?out) = image_mset magnitude (mset ?out)" by simp
  also have "\<dots> = mset (map magnitude (filtered qs t))" by (simp add: same)
  finally show ?thesis using adjacent same by blast
qed

text \<open>
  On the sample feed in reverse order (null, \<open>1\<close>, \<open>5.2\<close>) at threshold \<open>0\<close>: all
  three records are shown, ordered \<open>5.2\<close>, \<open>1\<close>, null, and the last still has a
  null magnitude.
\<close>

theorem list_order_descending_witness:
  "Suc 1 < length (list_order (filtered (rev (normalize sample_feed)) (Fin 0)))
   \<and> map id' (filtered (rev (normalize sample_feed)) (Fin 0)) = [Val ''c'', Val ''b'', Val ''a'']
   \<and> map id' (list_order (filtered (rev (normalize sample_feed)) (Fin 0)))
       = [Val ''a'', Val ''b'', Val ''c'']
   \<and> map magnitude (list_order (filtered (rev (normalize sample_feed)) (Fin 0)))
       = [Val (Fin 5.2), Val (Fin 1), Null]
   \<and> js_ge (nullish (magnitude (list_order (filtered (rev (normalize sample_feed)) (Fin 0)) ! 1))
              (Fin 0))
            (nullish (magnitude (list_order (filtered (rev (normalize sample_feed)) (Fin 0))
                                  ! Suc 1)) (Fin 0))"
proof -
  have out: "map magnitude (list_order (filtered (rev (normalize sample_feed)) (Fin 0)))
       = [Val (Fin 5.2), Val (Fin 1), Null]
     \<and> map id' (list_order (filtered (rev (normalize sample_feed)) (Fin 0)))
       = [Val ''a'', Val ''b'', Val ''c'']
     \<and> map id' (filtered (rev (normalize sample_feed)) (Fin 0)) = [Val ''c'', Val ''b'', Val ''a'']"
    by (simp add: list_order_def filtered_def normalize_def sample_feed_def
          sample_feature_def normalize_feature_def placed_after_def by_magnitude_desc_def)
  then have len: "Suc 1 < length (list_order (filtered (rev (normalize sample_feed)) (Fin 0)))"
    using length_map [of magnitude "list_order (filtered (rev (normalize sample_feed)) (Fin 0))"]
    by simp
  from list_order_descending [of "rev (normalize sample_feed)" "Fin 0", THEN conjunct1,
      THEN spec, of 1, THEN mp, OF len] out len
  show ?thesis by simp
qed


section \<open>Properties of map framing\<close>

lemma FitBounds_nonempty:
  "fts \<noteq> [] \<Longrightarrow>
   FitBounds (Some fts) m =
     fitBounds (map (\<lambda>f. (js_index (coordinates (fit_geometry f)) 1,
                          js_index (coordinates (fit_geometry f)) 0)) fts) (50, 50) m"
  by (simp add: FitBounds_def)

lemma frame_map_nonempty:
  "fs \<noteq> [] \<Longrightarrow> frame_map fs m = fitBounds (map (\<lambda>f. (lat f, lon f)) fs) (50, 50) m"
  by (simp add: frame_map_def fit_features_def FitBounds_nonempty lat_def lon_def
        js_index_def comp_def)

text \<open>
  C7. When the filtered set is empty, framing is a no-op: the effect of \<open>FitBounds\<close>
  returns before it reaches \<open>map.fitBounds\<close>, so the map is left as it was, its view
  included, and no request is made. A bounds-fit is requested only for a non-empty
  filtered set, and then once, for the \<open>[lat, lon]\<close> pairs of its records with padding
  \<open>[50, 50]\<close>. (The visualizer renders the map pane, and \<open>FitBounds\<close> in it, only for
  a non-empty filtered set.)
\<close>

theorem FitBounds_skipped_when_empty:
  "frame_map [] m = m
   \<and> FitBounds (Some []) m = m
   \<and> FitBounds None m = m
   \<and> view (frame_map [] m) = view m
   \<and> fit_requests (frame_map [] m) = fit_requests m
   \<and> (fit_requests (frame_map fs m) \<noteq> fit_requests m \<longrightarrow> fs \<noteq> [])
   \<and> (fs \<noteq> [] \<longrightarrow>
        fit_requests (frame_map fs m)
          = fit_requests m @ [(map (\<lambda>f. (lat f, lon f)) fs, (50, 50))])
   \<and> (main_pane s = MapPane fs \<longrightarrow> fs \<noteq> [] \<and> fs = filtered (data s) (minMag s))"
proof -
  have empty: "frame_map [] m = m" "FitBounds (Some []) m = m" "FitBounds None m = m"
    by (simp_all add: frame_map_def fit_features_def FitBounds_def)
  have only: "fit_requests (frame_map fs m) \<noteq> fit_requests m \<longrightarrow> fs \<noteq> []"
    using empty(1) by auto
  have request: "fs \<noteq> [] \<longrightarrow>
        fit_requests (frame_map fs m)
          = fit_requests m @ [(map (\<lambda>f. (lat f, lon f)) fs, (50, 50))]"
    by (simp add: frame_map_nonempty fitBounds_def)
  have pane: "main_pane s = MapPane fs \<longrightarrow> fs \<noteq> [] \<and> fs = filtered (data s) (minMag s)"
    by (auto simp: main_pane_def split: option.splits if_splits)
  have kept: "view (frame_map [] m) = view m"
    "fit_requests (frame_map [] m) = fit_requests m"
    by (simp_all add: empty)
  from empty kept only request pane show ?thesis by blast
qed

text \<open>
  On a fresh map: the sample feed's records at threshold \<open>0\<close> make one request, for
  their three \<open>[lat, lon]\<close> pairs; at threshold \<open>6\<close> nothing is shown and the map
  keeps its view.
\<close>

theorem FitBounds_skipped_when_empty_witness:
  "filtered (normalize sample_feed) (Fin 0) \<noteq> []
   \<and> fit_requests (frame_map (filtered (normalize sample_feed) (Fin 0)) fresh_map)
       \<noteq> fit_requests fresh_map
   \<and> fit_requests (frame_map (filtered (normalize sample_feed) (Fin 0)) fresh_map)
       = [([(Val (Fin 20), Val (Fin 10)), (Val (Fin 40), Val (Fin (-30))),
            (Val (Fin (-60)), Val (Fin 50))], (50, 50))]
   \<and> main_pane (on_json sample_feed (start_fetch initial))
       = MapPane (filtered (normalize sample_feed) (Fin 0))
   \<and> filtered (normalize sample_feed) (Fin 6) = []
   \<and> frame_map (filtered (normalize sample_feed) (Fin 6)) fresh_map = fresh_map"
proof -
  let ?shown = "filtered (normalize sample_feed) (Fin 0)"
  have all: "?shown = normalize sample_feed"
    and none: "filtered (normalize sample_feed) (Fin 6) = []"
    and some: "normalize sample_feed \<noteq> []"
    by (simp_all add: filtered_def normalize_def sample_feed_def sample_feature_def
          normalize_feature_def)
  have nonempty: "?shown \<noteq> []"
    unfolding all by (rule some)
  have pane: "main_pane (on_json sample_feed (start_fetch initial)) = MapPane ?shown"
    by (simp add: main_pane_def on_json_def start_fetch_def initial_def all some)
  have pairs: "map (\<lambda>f. (lat f, lon f)) ?shown
       = [(Val (Fin 20), Val (Fin 10)), (Val (Fin 40), Val (Fin (-30))),
          (Val (Fin (-60)), Val (Fin 50))]"
    unfolding all
    by (simp add: normalize_def sample_feed_def sample_feature_def normalize_feature_def
          lat_def lon_def js_index_def)
  note fact = FitBounds_skipped_when_empty
    [of fresh_map ?shown "on_json sample_feed (start_fetch initial)"]
  from fact nonempty have "fit_requests (frame_map ?shown fresh_map)
      = fit_requests fresh_map @ [(map (\<lambda>f. (lat f, lon f)) ?shown, (50, 50))]"
    by blast
  then have request: "fit_requests (frame_map ?shown fresh_map)
       = [([(Val (Fin 20), Val (Fin 10)), (Val (Fin 40), Val (Fin (-30))),
            (Val (Fin (-60)), Val (Fin 50))], (50, 50))]"
    unfolding pairs by (simp add: fresh_map_def)
  then have changed: "fit_requests (frame_map ?shown fresh_map) \<noteq> fit_requests fresh_map"
    by (simp add: fresh_map_def)
  from fact have "frame_map [] fresh_map = fresh_map" by blast
  then have skipped: "frame_map (filtered (normalize sample_feed) (Fin 6)) fresh_map = fresh_map"
    unfolding none .
  from nonempty changed request pane none skipped show ?thesis by blast
qed

section \<open>Properties of fetching\<close>

lemma message_or_default_nonempty: "message_or_default err \<noteq> []"
  by (simp add: message_or_default_def split: option.splits)

lemma filtered_Nil: "filtered [] t = []"
  by (simp add: filtered_def)

lemma on_error_mounted:
  "on_error err (start_fetch initial) =
     \<lparr> data = [], loading = False, error = Some (message_or_default err),
       minMag = Fin 0, mounted = True \<rparr>"
  by (simp add: on_error_def start_fetch_def initial_def)

text \<open>
  C8. When the fetch rejects, or answers with a status that is not a success, the
  session that started from the initial state ends Failed: an error message, a
  non-empty string, is stored (the rejection's own message, \<open>Failed to load\<close> when it
  has none, \<open>Network response was not ok\<close> for a bad status), loading has ended, the
  data is still the initial empty array, so the filtered view is empty at every
  threshold, and the main pane shows the error.
\<close>

theorem failed_fetch_stores_error:
  "error (settle (Rejected err) (start_fetch initial)) = Some (message_or_default err)
   \<and> message_or_default err \<noteq> []
   \<and> \<not> loading (settle (Rejected err) (start_fetch initial))
   \<and> data (settle (Rejected err) (start_fetch initial)) = []
   \<and> filtered (data (settle (Rejected err) (start_fetch initial))) t = []
   \<and> main_pane (settle (Rejected err) (start_fetch initial))
       = ErrorPane (message_or_default err)
   \<and> error (settle (Response False b) (start_fetch initial))
       = Some ''Network response was not ok''
   \<and> \<not> loading (settle (Response False b) (start_fetch initial))
   \<and> data (settle (Response False b) (start_fetch initial)) = []
   \<and> filtered (data (settle (Response False b) (start_fetch initial))) t = []
   \<and> main_pane (settle (Response False b) (start_fetch initial))
       = ErrorPane ''Network response was not ok''"
proof -
  have rejected: "settle (Rejected err) (start_fetch initial)
      = on_error err (start_fetch initial)"
    by (simp add: settle_def)
  have bad_status: "settle (Response False b) (start_fetch initial)
      = on_error (Error (Some ''Network response was not ok'')) (start_fetch initial)"
    by (simp add: settle_def)
  have default: "message_or_default (Error (Some ''Network response was not ok''))
      = ''Network response was not ok''"
    by (simp add: message_or_default_def)
  have pane: "main_pane (on_error e (start_fetch initial)) = ErrorPane (message_or_default e)"
    for e
    by (simp add: on_error_mounted main_pane_def message_or_default_nonempty)
  have fields: "error (on_error e (start_fetch initial)) = Some (message_or_default e)"
    "\<not> loading (on_error e (start_fetch initial))"
    "data (on_error e (start_fetch initial)) = []" for e
    by (simp_all add: on_error_mounted)
  show ?thesis
    unfolding rejected bad_status
    by (simp add: pane fields filtered_Nil message_or_default_nonempty default)
qed

text \<open>
  C9. Once the view is torn down (the effect's cleanup has run), the fetch settling,
  with a document or with any failure, changes nothing of the retained state: data,
  error and loading are what they were at teardown. For a view torn down while the
  fetch is pending, loading is still true, the data empty and the error unset.
\<close>

theorem settle_after_teardown_is_noop:
  "settle outcome (cleanup s) = cleanup s
   \<and> data (settle outcome (cleanup s)) = data s
   \<and> error (settle outcome (cleanup s)) = error s
   \<and> loading (settle outcome (cleanup s)) = loading s
   \<and> data (settle outcome (cleanup (start_fetch initial))) = []
   \<and> error (settle outcome (cleanup (start_fetch initial))) = None
   \<and> loading (settle outcome (cleanup (start_fetch initial)))"
proof -
  have guard: "on_error e (cleanup s) = cleanup s" "on_json j (cleanup s) = cleanup s"
    for e j s
    by (simp_all add: on_error_def on_json_def cleanup_def)
  have noop: "settle outcome (cleanup s) = cleanup s" for s
    by (simp add: settle_def guard split: fetch_outcome.splits body.splits)
  show ?thesis
    unfolding noop by (simp add: cleanup_def start_fetch_def initial_def)
qed

text \<open>While the view is mounted, a parsed document does replace the data.\<close>

lemma settle_loaded:
  "settle (Response True (Json json)) (start_fetch initial)
     = \<lparr> data = normalize json, loading = False, error = None, minMag = Fin 0,
         mounted = True \<rparr>"
  by (simp add: settle_def on_json_def start_fetch_def initial_def)

end
